theory Spec2Isabelle
  imports Complex_Main "HOL-Library.Log_Nat"
begin

section \<open>Python strings\<close>

text \<open>
  A Python \<open>str\<close> is modelled as a \<open>string\<close> holding its UTF-8 bytes. The operations
  below only ever look for the ASCII characters \<open>.\<close> and \<open>/\<close> and the ASCII letters,
  none of which occurs inside the encoding of a non-ASCII code point.
\<close>

definition startswith :: "string \<Rightarrow> string \<Rightarrow> bool" where
  \<comment> \<open>\<open>s.startswith(p)\<close>\<close>
  "startswith s p = (take (length p) s = p)"

definition endswith :: "string \<Rightarrow> string \<Rightarrow> bool" where
  \<comment> \<open>\<open>s.endswith(p)\<close>\<close>
  "endswith s p = (drop (length s - length p) s = p \<and> length p \<le> length s)"

definition ascii_uppercase :: string where
  "ascii_uppercase = ''ABCDEFGHIJKLMNOPQRSTUVWXYZ''"

definition ascii_lowercase :: string where
  "ascii_lowercase = ''abcdefghijklmnopqrstuvwxyz''"

definition lower_char :: "char \<Rightarrow> char" where
  "lower_char c = (case map_of (zip ascii_uppercase ascii_lowercase) c of
                     Some d \<Rightarrow> d | None \<Rightarrow> c)"

definition lower :: "string \<Rightarrow> string" where
  \<comment> \<open>\<open>s.lower()\<close> on the ASCII letters; every other byte is kept\<close>
  "lower s = map lower_char s"

definition rsplit1 :: "char \<Rightarrow> string \<Rightarrow> string list" where
  \<comment> \<open>\<open>s.rsplit(sep, 1)\<close>: split once, at the last \<open>sep\<close>\<close>
  "rsplit1 sep s =
     (if sep \<in> set s
      then [rev (tl (dropWhile (\<lambda>c. c \<noteq> sep) (rev s))),
            rev (takeWhile (\<lambda>c. c \<noteq> sep) (rev s))]
      else [s])"

fun first_non_dot :: "string \<Rightarrow> bool" where
  \<comment> \<open>the \<open>while\<close> loop of \<open>splitext\<close>: does the slice hold a character other than a dot\<close>
  "first_non_dot [] = False"
| "first_non_dot (c # cs) = (if c \<noteq> CHR ''.'' then True else first_non_dot cs)"

definition rfind :: "string \<Rightarrow> char \<Rightarrow> int" where
  \<comment> \<open>\<open>s.rfind(c)\<close>: the index of the last \<open>c\<close>, or \<open>-1\<close>\<close>
  "rfind s c =
     (if c \<in> set s
      then int (length s) - 1 - int (length (takeWhile (\<lambda>x. x \<noteq> c) (rev s)))
      else - 1)"

definition splitext :: "string \<Rightarrow> string \<times> string" where
  \<comment> \<open>\<open>os.path.splitext\<close> of \<open>posixpath\<close>: the extension starts at the last dot of the last
      path component, unless only dots precede it there\<close>
  "splitext p =
     (let sepIndex = rfind p CHR ''/'';
          dotIndex = rfind p CHR ''.''
      in if dotIndex > sepIndex \<and>
            first_non_dot (take (nat dotIndex - nat (sepIndex + 1)) (drop (nat (sepIndex + 1)) p))
         then (take (nat dotIndex) p, drop (nat dotIndex) p)
         else (p, []))"

definition dirname :: "string \<Rightarrow> string" where
  \<comment> \<open>the directory a path names a file in: what stands before its last \<open>/\<close>\<close>
  "dirname p = (case rsplit1 CHR ''/'' p of [d, _] \<Rightarrow> d | _ \<Rightarrow> [])"

definition basename :: "string \<Rightarrow> string" where
  \<comment> \<open>the last component of a path: what stands after its last \<open>/\<close>\<close>
  "basename p = (case rsplit1 CHR ''/'' p of [_, n] \<Rightarrow> n | _ \<Rightarrow> p)"

definition quoted :: "string \<Rightarrow> string" where
  \<comment> \<open>a text between apostrophes, as Python's messages print names and paths\<close>
  "quoted s = CHR 0x27 # s @ [CHR 0x27]"

definition path_join :: "string \<Rightarrow> string \<Rightarrow> string" where
  \<comment> \<open>\<open>os.path.join(d, n)\<close> and \<open>pathlib\<close>'s \<open>d / n\<close> for a directory \<open>d\<close> that does not end
      in \<open>/\<close> and a name \<open>n\<close> that does not start with one (every name joined below starts
      with a digit or with \<open>result_\<close>)\<close>
  "path_join d n = d @ ''/'' @ n"

section \<open>Python floats\<close>

text \<open>
  A Python \<open>float\<close> is an IEEE 754 double. A finite double is modelled by the rational
  it denotes; \<open>fl\<close> rounds a rational to the nearest double (53 significant bits, ties
  to even). Overflow, subnormal numbers and NaN are outside the model: the values are
  pixel coordinates and confidences. \<open>round(x, n)\<close> is CPython's: the exact value of
  \<open>x\<close> is rounded to \<open>n\<close> decimals, ties to even, and the decimal is read back as the
  nearest double.
\<close>

type_synonym pyfloat = rat

definition round_half_even :: "rat \<Rightarrow> int" where
  "round_half_even x =
     (let f = \<lfloor>x\<rfloor>; d = x - of_int f
      in if d < 1 / 2 then f else if 1 / 2 < d then f + 1 else if even f then f else f + 1)"

definition ilog2 :: "rat \<Rightarrow> int" where
  \<comment> \<open>\<open>\<lfloor>log\<^sub>2 x\<rfloor>\<close> for \<open>x > 0\<close>, from the bit lengths of numerator and denominator\<close>
  "ilog2 x =
     (let (p, q) = quotient_of x;
          k = bitlen p - bitlen q
      in if 2 powi k \<le> x then k else k - 1)"

definition fl :: "rat \<Rightarrow> pyfloat" where
  "fl x =
     (if x = 0 then 0
      else let e = ilog2 \<bar>x\<bar> - 52;
               m = round_half_even (\<bar>x\<bar> / 2 powi e)
           in sgn x * of_int m * 2 powi e)"

definition fadd :: "pyfloat \<Rightarrow> pyfloat \<Rightarrow> pyfloat" where
  "fadd a b = fl (a + b)"

definition fdiv :: "pyfloat \<Rightarrow> pyfloat \<Rightarrow> pyfloat" where
  "fdiv a b = fl (a / b)"

definition py_round :: "pyfloat \<Rightarrow> nat \<Rightarrow> pyfloat" where
  "py_round x ndigits = fl (of_int (round_half_even (x * 10 ^ ndigits)) / 10 ^ ndigits)"

section \<open>JSON values and Python dictionaries\<close>

datatype json =
    JNull
  | JBool bool
  | JInt int
  | JFloat pyfloat
  | JStr string
  | JList "json list"
  | JDict "(string \<times> json) list"

text \<open>A \<open>dict\<close> keeps its keys in insertion order; assigning to a key that is
  present replaces its value in place, assigning to a new key appends it.\<close>

type_synonym pydict = "(string \<times> json) list"

fun dict_set :: "pydict \<Rightarrow> string \<Rightarrow> json \<Rightarrow> pydict" where
  "dict_set [] k v = [(k, v)]"
| "dict_set ((k', v') # d) k v = (if k' = k then (k, v) # d else (k', v') # dict_set d k v)"

definition dict_get :: "pydict \<Rightarrow> string \<Rightarrow> json option" where
  "dict_get d k = map_of d k"

definition dict_has :: "pydict \<Rightarrow> string \<Rightarrow> bool" where
  \<comment> \<open>\<open>k in d\<close>\<close>
  "dict_has d k = (k \<in> fst ` set d)"

definition jget :: "json \<Rightarrow> string \<Rightarrow> json option" where
  \<comment> \<open>the field \<open>k\<close> of a JSON object\<close>
  "jget j k = (case j of JDict d \<Rightarrow> dict_get d k | _ \<Rightarrow> None)"

definition jpath :: "json \<Rightarrow> string \<Rightarrow> string \<Rightarrow> json option" where
  \<comment> \<open>the field \<open>k2\<close> of the object in field \<open>k1\<close>\<close>
  "jpath j k1 k2 = (case jget j k1 of Some o1 \<Rightarrow> jget o1 k2 | None \<Rightarrow> None)"

section \<open>The clock\<close>

record datetime =
  year :: nat
  month :: nat
  day :: nat
  hour :: nat
  minute :: nat
  second :: nat
  microsecond :: nat

definition digit :: "nat \<Rightarrow> char" where
  "digit n = ''0123456789'' ! (n mod 10)"

definition pad2 :: "nat \<Rightarrow> string" where
  "pad2 n = [digit (n div 10), digit n]"

definition pad3 :: "nat \<Rightarrow> string" where
  "pad3 n = [digit (n div 100), digit (n div 10), digit n]"

definition pad4 :: "nat \<Rightarrow> string" where
  "pad4 n = [digit (n div 1000), digit (n div 100), digit (n div 10), digit n]"

definition pad6 :: "nat \<Rightarrow> string" where
  "pad6 n = [digit (n div 100000), digit (n div 10000), digit (n div 1000),
             digit (n div 100), digit (n div 10), digit n]"

definition strftime :: "datetime \<Rightarrow> string" where
  \<comment> \<open>\<open>strftime('%Y%m%d_%H%M%S')\<close>, for a year of four digits\<close>
  "strftime t = pad4 (year t) @ pad2 (month t) @ pad2 (day t) @ ''_'' @
                pad2 (hour t) @ pad2 (minute t) @ pad2 (second t)"

definition isoformat :: "datetime \<Rightarrow> string" where
  "isoformat t = pad4 (year t) @ ''-'' @ pad2 (month t) @ ''-'' @ pad2 (day t) @ ''T'' @
                 pad2 (hour t) @ '':'' @ pad2 (minute t) @ '':'' @ pad2 (second t) @
                 (if microsecond t = 0 then [] else ''.'' @ pad6 (microsecond t))"

definition same_second :: "datetime \<Rightarrow> datetime \<Rightarrow> bool" where
  \<comment> \<open>two clock readings within one second of the calendar\<close>
  "same_second a b =
     (year a = year b \<and> month a = month b \<and> day a = day b \<and>
      hour a = hour b \<and> minute a = minute b \<and> second a = second b)"

section \<open>Storage\<close>

text \<open>
  The exceptions the two handlers meet. \<open>ConnectTimeout\<close> is the class of \<open>requests\<close> that
  derives from both \<open>ConnectionError\<close> and \<open>Timeout\<close>; \<open>RaisedError\<close> stands for any other
  exception a library raises, with its message.

  The file system is the set of directories that exist and the files by path. Writing a
  file needs its directory to exist (\<open>FileNotFoundError\<close> otherwise) and its name to be of
  at most \<open>NAME_MAX\<close> bytes (\<open>OSError\<close>, errno 36, otherwise), and replaces what the path
  held. A full disk and missing permissions are outside the model. Paths are compared as strings. A JSON file holds the value that
  \<open>json.dump\<close> wrote: \<open>json.load\<close> of the text gives that value back.
\<close>

type_synonym bytes = "nat list"

datatype content = Blob bytes | JsonText json

record filesystem =
  dirs :: "string set"
  files :: "string \<rightharpoonup> content"

datatype exn =
    HTTPException nat string
  | AttributeError string
  | TypeError string
  | FileNotFoundError string
  | OSError string
  | RequestEntityTooLarge
  | Timeout string
  | ConnectTimeout string
  | ConnectionError string
  | RaisedError string

definition exn_str :: "exn \<Rightarrow> string" where
  \<comment> \<open>\<open>str(e)\<close>; Starlette prints an \<open>HTTPException\<close> as \<open>status: detail\<close>\<close>
  "exn_str e =
     (case e of
        HTTPException st detail \<Rightarrow> pad3 st @ '': '' @ detail
      | AttributeError m \<Rightarrow> m
      | TypeError m \<Rightarrow> m
      | FileNotFoundError path \<Rightarrow> ''[Errno 2] No such file or directory: '' @ quoted path
      | OSError m \<Rightarrow> m
      | RequestEntityTooLarge \<Rightarrow>
          ''413 Request Entity Too Large: The data value transmitted exceeds the capacity limit.''
      | Timeout m \<Rightarrow> m
      | ConnectTimeout m \<Rightarrow> m
      | ConnectionError m \<Rightarrow> m
      | RaisedError m \<Rightarrow> m)"

definition NAME_MAX :: nat where
  \<comment> \<open>the longest file name, in bytes, that the file system takes\<close>
  "NAME_MAX = 255"

definition can_write :: "filesystem \<Rightarrow> string \<Rightarrow> bool" where
  \<comment> \<open>a file can be created or replaced at the path\<close>
  "can_write fs path = (dirname path \<in> dirs fs \<and> length (basename path) \<le> NAME_MAX)"

definition write_file :: "filesystem \<Rightarrow> string \<Rightarrow> content \<Rightarrow> exn + filesystem" where
  \<comment> \<open>\<open>open(path, 'w')\<close> and the write: of \<open>Image.save\<close>, \<open>json.dump\<close> and \<open>FileStorage.save\<close>\<close>
  "write_file fs path c =
     (if dirname path \<notin> dirs fs then Inl (FileNotFoundError path)
      else if NAME_MAX < length (basename path)
      then Inl (OSError (''[Errno 36] File name too long: '' @ quoted path))
      else Inr (fs\<lparr>files := (files fs)(path \<mapsto> c)\<rparr>))"

definition os_remove :: "filesystem \<Rightarrow> string \<Rightarrow> exn + filesystem" where
  "os_remove fs path =
     (case files fs path of
        None \<Rightarrow> Inl (FileNotFoundError path)
      | Some _ \<Rightarrow> Inr (fs\<lparr>files := (files fs)(path := None)\<rparr>))"

definition json_load :: "content \<Rightarrow> json option" where
  "json_load c = (case c of JsonText v \<Rightarrow> Some v | Blob _ \<Rightarrow> None)"

record upload_file =
  filename :: string
  content_type :: "string option"
  contents :: bytes

section \<open>The Detection Service (ai-backend/app.py)\<close>

subsection \<open>What the service is given\<close>

record image =
  mode :: string
  width :: nat
  height :: nat

record row =
  \<comment> \<open>one row of \<open>results.pandas().xyxy[0]\<close>\<close>
  name :: string
  confidence :: pyfloat
  xmin :: pyfloat
  ymin :: pyfloat
  xmax :: pyfloat
  ymax :: pyfloat

record yolo_results =
  predictions :: "row list"
  rendered :: bytes

text \<open>
  The libraries and the machine the handler runs on: \<open>ai_root\<close> is the directory
  \<open>BASE_DIR.parent\<close>; \<open>model\<close> is the global of that name (\<open>None\<close> until loaded), a call
  of which returns the results or raises; \<open>image_open\<close> is \<open>Image.open\<close> on the
  uploaded bytes; \<open>now n\<close> is what the \<open>n\<close>-th call of \<open>datetime.now()\<close> of the request
  returns.
\<close>

record detect_env =
  ai_root :: string
  model :: "(image \<Rightarrow> exn + yolo_results) option"
  image_open :: "bytes \<Rightarrow> exn + image"
  now :: "nat \<Rightarrow> datetime"

definition STATIC_DIR :: "detect_env \<Rightarrow> string" where
  "STATIC_DIR env = path_join (ai_root env) ''static''"

definition RESULTS_DIR :: "detect_env \<Rightarrow> string" where
  "RESULTS_DIR env = path_join (STATIC_DIR env) ''results''"

definition IMAGES_DIR :: "detect_env \<Rightarrow> string" where
  "IMAGES_DIR env = path_join (RESULTS_DIR env) ''image''"

definition JSON_DIR :: "detect_env \<Rightarrow> string" where
  "JSON_DIR env = path_join (RESULTS_DIR env) ''json''"

definition convert_RGB :: "image \<Rightarrow> image" where
  \<comment> \<open>\<open>image.convert('RGB')\<close>: the size is kept\<close>
  "convert_RGB img = img\<lparr>mode := ''RGB''\<rparr>"

subsection \<open>parse\_results\<close>

definition detection :: "nat \<Rightarrow> row \<Rightarrow> json" where
  \<comment> \<open>the body of the loop, for the row at index \<open>idx\<close>\<close>
  "detection idx r =
     JDict [
       (''object_id'', JInt (int idx + 1)),
       (''class'', JStr (name r)),
       (''confidence'', JFloat (py_round (confidence r) 4)),
       (''bounding_box'', JDict [
          (''x_min'', JFloat (py_round (xmin r) 2)),
          (''y_min'', JFloat (py_round (ymin r) 2)),
          (''x_max'', JFloat (py_round (xmax r) 2)),
          (''y_max'', JFloat (py_round (ymax r) 2))]),
       (''center'', JDict [
          (''x'', JFloat (py_round (fdiv (fadd (xmin r) (xmax r)) 2) 2)),
          (''y'', JFloat (py_round (fdiv (fadd (ymin r) (ymax r)) 2) 2))])]"

fun parse_rows :: "nat \<Rightarrow> row list \<Rightarrow> json list" where
  \<comment> \<open>\<open>for idx, row in predictions.iterrows()\<close>, from index \<open>idx\<close> on\<close>
  "parse_rows idx [] = []"
| "parse_rows idx (r # rs) = detection idx r # parse_rows (Suc idx) rs"

definition parse_results :: "yolo_results \<Rightarrow> json list" where
  "parse_results results = parse_rows 0 (predictions results)"

subsection \<open>detect\_objects\<close>

definition result_filename_img :: "string \<Rightarrow> string \<Rightarrow> string" where
  "result_filename_img timestamp base_name = ''result_'' @ timestamp @ ''_'' @ base_name @ ''.jpg''"

definition result_filename_json :: "string \<Rightarrow> string \<Rightarrow> string" where
  "result_filename_json timestamp base_name = ''result_'' @ timestamp @ ''_'' @ base_name @ ''.json''"

definition response_data :: "upload_file \<Rightarrow> image \<Rightarrow> json list \<Rightarrow> string \<Rightarrow> datetime \<Rightarrow> pydict" where
  \<comment> \<open>the dictionary literal of line 136\<close>
  "response_data file img detections img_name stamp =
     [(''success'', JBool True),
      (''image_name'', JStr (filename file)),
      (''image_size'', JDict [(''width'', JInt (int (width img))),
                              (''height'', JInt (int (height img)))]),
      (''detections_count'', JInt (int (length detections))),
      (''detections'', JList detections),
      (''result_image'', JStr (''/static/results/image/'' @ img_name)),
      (''timestamp'', JStr (isoformat stamp))]"

definition detect_try :: "detect_env \<Rightarrow> (image \<Rightarrow> exn + yolo_results) \<Rightarrow> filesystem \<Rightarrow>
    upload_file \<Rightarrow> filesystem \<times> (exn + json)" where
  \<comment> \<open>the body of the \<open>try\<close>: the file system as it leaves it, and what it raises or returns\<close>
  "detect_try env the_model fs file =
     (case content_type file of
        None \<Rightarrow> (fs, Inl (AttributeError (quoted ''NoneType'' @
                  '' object has no attribute '' @ quoted ''startswith'')))
      | Some ct \<Rightarrow>
     if \<not> startswith ct ''image/'' then (fs, Inl (HTTPException 400 ''File must be an image''))
     else
     (case image_open env (contents file) of
        Inl e \<Rightarrow> (fs, Inl e)
      | Inr opened \<Rightarrow>
     let img = (if mode opened \<noteq> ''RGB'' then convert_RGB opened else opened) in
     (case the_model img of
        Inl e \<Rightarrow> (fs, Inl e)
      | Inr results \<Rightarrow>
     let detections = parse_results results;
         timestamp = strftime (now env 0);
         base_name = fst (splitext (filename file));
         img_name = result_filename_img timestamp base_name;
         result_path_img = path_join (IMAGES_DIR env) img_name
     in
     (case write_file fs result_path_img (Blob (rendered results)) of
        Inl e \<Rightarrow> (fs, Inl e)
      | Inr fs1 \<Rightarrow>
     let data = response_data file img detections img_name (now env 1);
         json_name = result_filename_json timestamp base_name;
         json_path = path_join (JSON_DIR env) json_name
     in
     (case write_file fs1 json_path (JsonText (JDict data)) of
        Inl e \<Rightarrow> (fs1, Inl e)
      | Inr fs2 \<Rightarrow>
          (fs2, Inr (JDict (dict_set data ''result_json''
                       (JStr (''/static/results/json/'' @ json_name))))))))))"

definition detect_objects :: "detect_env \<Rightarrow> filesystem \<Rightarrow> upload_file \<Rightarrow>
    filesystem \<times> (exn + json)" where
  \<comment> \<open>\<open>Inl\<close>: the \<open>HTTPException\<close> the handler raises; \<open>Inr\<close>: the body of its
      \<open>JSONResponse\<close>\<close>
  "detect_objects env fs file =
     (case model env of
        None \<Rightarrow> (fs, Inl (HTTPException 503 ''Model not loaded''))
      | Some the_model \<Rightarrow>
          (case detect_try env the_model fs file of
             (fs', Inl e) \<Rightarrow> (fs', Inl (HTTPException 500 (''Detection failed: '' @ exn_str e)))
           | (fs', Inr body) \<Rightarrow> (fs', Inr body)))"

definition status_of :: "exn + json \<Rightarrow> nat" where
  \<comment> \<open>the HTTP status the client sees\<close>
  "status_of r = (case r of Inl (HTTPException st _) \<Rightarrow> st | Inl _ \<Rightarrow> 500 | Inr _ \<Rightarrow> 200)"

subsection \<open>The two artifacts of a request\<close>

definition img_artifact_name :: "detect_env \<Rightarrow> upload_file \<Rightarrow> string" where
  \<comment> \<open>\<open>result_filename_img\<close> as \<open>detect_objects\<close> computes it for the request\<close>
  "img_artifact_name env file =
     result_filename_img (strftime (now env 0)) (fst (splitext (filename file)))"

definition json_artifact_name :: "detect_env \<Rightarrow> upload_file \<Rightarrow> string" where
  "json_artifact_name env file =
     result_filename_json (strftime (now env 0)) (fst (splitext (filename file)))"

definition img_artifact_path :: "detect_env \<Rightarrow> upload_file \<Rightarrow> string" where
  "img_artifact_path env file = path_join (IMAGES_DIR env) (img_artifact_name env file)"

definition json_artifact_path :: "detect_env \<Rightarrow> upload_file \<Rightarrow> string" where
  "json_artifact_path env file = path_join (JSON_DIR env) (json_artifact_name env file)"


definition artifact_equals_body :: "detect_env \<Rightarrow> filesystem \<Rightarrow> upload_file \<Rightarrow> bool" where
  \<comment> \<open>after a success response, the JSON artifact parses to the body that was returned\<close>
  "artifact_equals_body env fs file =
     (case detect_objects env fs file of
        (fs', Inr b) \<Rightarrow>
          (case files fs' (json_artifact_path env file) of
             Some c \<Rightarrow> json_load c = Some b
           | None \<Rightarrow> False)
      | (fs', Inl e) \<Rightarrow> True)"

subsection \<open>The centre of a detection\<close>

definition center_is_midpoint_of_box :: "json \<Rightarrow> bool" where
  \<comment> \<open>\<open>center\<close> is \<open>round((x_min + x_max) / 2, 2)\<close>, \<open>round((y_min + y_max) / 2, 2)\<close> of the
      \<open>bounding_box\<close> fields of the same detection\<close>
  "center_is_midpoint_of_box d =
     (case (jpath d ''bounding_box'' ''x_min'', jpath d ''bounding_box'' ''x_max'',
            jpath d ''bounding_box'' ''y_min'', jpath d ''bounding_box'' ''y_max'',
            jpath d ''center'' ''x'', jpath d ''center'' ''y'') of
        (Some (JFloat x_min), Some (JFloat x_max), Some (JFloat y_min), Some (JFloat y_max),
         Some (JFloat cx), Some (JFloat cy)) \<Rightarrow>
          cx = py_round (fdiv (fadd x_min x_max) 2) 2 \<and>
          cy = py_round (fdiv (fadd y_min y_max) 2) 2
      | _ \<Rightarrow> False)"

definition example_results_rounded :: yolo_results where
  \<comment> \<open>a box whose corners are doubles of at most two decimals\<close>
  "example_results_rounded =
     \<lparr>predictions = [\<lparr>name = ''dog'', confidence = 3 / 4,
                       xmin = 0, ymin = 0, xmax = 1 / 2, ymax = 1 / 4\<rparr>],
      rendered = [255, 216, 255]\<rparr>"

subsection \<open>A request, for the examples\<close>

definition example_image :: image where
  "example_image = \<lparr>mode = ''RGB'', width = 640, height = 480\<rparr>"

definition example_results :: yolo_results where
  "example_results =
     \<lparr>predictions = [\<lparr>name = ''cat'', confidence = 7 / 8,
                       xmin = 0, ymin = 0, xmax = 17 / 256, ymax = 1 / 2\<rparr>],
      rendered = [255, 216, 255]\<rparr>"

definition example_clock :: "nat \<Rightarrow> datetime" where
  \<comment> \<open>2024-05-17 09:30:07, a microsecond later at each reading\<close>
  "example_clock n =
     \<lparr>year = 2024, month = 5, day = 17, hour = 9, minute = 30, second = 7,
      microsecond = 1000 + n\<rparr>"

definition example_env :: detect_env where
  "example_env =
     \<lparr>ai_root = ''/srv'', model = Some (\<lambda>img. Inr example_results),
      image_open = (\<lambda>b. Inr example_image), now = example_clock\<rparr>"

definition example_fs :: filesystem where
  "example_fs =
     \<lparr>dirs = {''/srv/static/results/image'', ''/srv/static/results/json''},
      files = Map.empty\<rparr>"

definition example_fs_without_json_dir :: filesystem where
  \<comment> \<open>\<open>os.makedirs(RESULTS_DIR)\<close> creates neither \<open>image/\<close> nor \<open>json/\<close>; here only the
      first exists\<close>
  "example_fs_without_json_dir =
     \<lparr>dirs = {''/srv/static/results/image''}, files = Map.empty\<rparr>"

definition example_upload :: upload_file where
  "example_upload =
     \<lparr>filename = ''cat.png'', content_type = Some ''image/png'', contents = [137, 80]\<rparr>"

definition example_env_later :: detect_env where
  \<comment> \<open>the same service 400 milliseconds later, the model rendering another image\<close>
  "example_env_later =
     example_env\<lparr>model := Some (\<lambda>img. Inr (example_results\<lparr>rendered := [255, 216, 0]\<rparr>)),
                 now := (\<lambda>n. example_clock (400000 + n))\<rparr>"

section \<open>The gateway (ui-backend/app.py)\<close>

subsection \<open>Configuration\<close>

definition MAX_CONTENT_LENGTH :: nat where
  "MAX_CONTENT_LENGTH = 16 * 1024 * 1024"

definition ALLOWED_EXTENSIONS :: "string list" where
  "ALLOWED_EXTENSIONS = [''png'', ''jpg'', ''jpeg'', ''gif'', ''bmp'', ''webp'']"

subsection \<open>allowed\_file\<close>

definition allowed_file :: "string \<Rightarrow> bool" where
  \<comment> \<open>the index \<open>[1]\<close> is only evaluated when \<open>'.' in filename\<close>, where
      \<open>rsplit\<close> returns two parts\<close>
  "allowed_file fname =
     (CHR ''.'' \<in> set fname \<and>
      (case rsplit1 CHR ''.'' fname of
         [_, ext] \<Rightarrow> lower ext \<in> set ALLOWED_EXTENSIONS
       | _ \<Rightarrow> False))"

definition differs_only_in_case :: "string \<Rightarrow> string \<Rightarrow> bool" where
  \<comment> \<open>the two strings are equal once their ASCII letters are lower-cased\<close>
  "differs_only_in_case a b = (lower a = lower b)"

subsection \<open>What the gateway is given\<close>

record http_response =
  \<comment> \<open>a \<open>requests.Response\<close>: \<open>response.text\<close>, and what \<open>response.json()\<close> returns, or the
      message of the \<open>JSONDecodeError\<close> it raises\<close>
  status_code :: nat
  response_text :: string
  response_json :: "string + json"

type_synonym post_call = "string \<times> string \<times> content \<times> string"
  \<comment> \<open>the URL, and the \<open>files\<close> entry: filename, the staged file's content, content type\<close>

text \<open>
  \<open>ui_root\<close> is \<open>BASE_DIR.parent\<close>; \<open>AI_BACKEND_URL\<close> is the environment variable of that
  name or its default; \<open>secure_filename\<close> is Werkzeug's; \<open>image_verify\<close> is what
  \<open>Image.open\<close>, \<open>verify\<close> and the second \<open>Image.open\<close> make of a file's content: its
  format and size, or \<open>None\<close> when one of them raises; \<open>post\<close> is \<open>requests.post\<close> with its
  timeout of 30 seconds, returning the upstream response or raising; \<open>ui_now\<close> is the
  clock at the one call of \<open>datetime.now()\<close>.
\<close>

record gateway_env =
  ui_root :: string
  AI_BACKEND_URL :: string
  secure_filename :: "string \<Rightarrow> string"
  image_verify :: "content \<Rightarrow> (string \<times> nat \<times> nat) option"
  post :: "post_call \<Rightarrow> exn + http_response"
  ui_now :: datetime

record request =
  \<comment> \<open>the request's \<open>Content-Length\<close>, and \<open>request.files.get('image')\<close>\<close>
  content_length :: nat
  image_file :: "upload_file option"

record outcome =
  \<comment> \<open>the file system after the request, the calls made to the Detection Service, and
      the response\<close>
  out_fs :: filesystem
  out_calls :: "post_call list"
  out_status :: nat
  out_body :: json

definition UPLOAD_FOLDER :: "gateway_env \<Rightarrow> string" where
  "UPLOAD_FOLDER env = path_join (path_join (ui_root env) ''static'') ''uploads''"

definition request_files :: "request \<Rightarrow> exn + upload_file option" where
  \<comment> \<open>\<open>request.files\<close>: Flask parses the form on first access and raises
      \<open>RequestEntityTooLarge\<close> when the content length exceeds \<open>MAX_CONTENT_LENGTH\<close>\<close>
  "request_files req =
     (if MAX_CONTENT_LENGTH < content_length req then Inl RequestEntityTooLarge
      else Inr (image_file req))"

definition error_body :: "string \<Rightarrow> json" where
  "error_body msg = JDict [(''success'', JBool False), (''error'', JStr msg)]"

subsection \<open>validate\_image\<close>

definition validate_image :: "gateway_env \<Rightarrow> filesystem \<Rightarrow> string \<Rightarrow>
    bool \<times> string option \<times> (nat \<times> nat) option" where
  "validate_image env fs file_path =
     (case files fs file_path of
        None \<Rightarrow> (False, None, None)
      | Some c \<Rightarrow>
          (case image_verify env c of
             None \<Rightarrow> (False, None, None)
           | Some (fmt, sz) \<Rightarrow> (True, Some fmt, Some sz)))"

subsection \<open>upload: forwarding\<close>

definition codepoints :: "string \<Rightarrow> nat" where
  \<comment> \<open>\<open>len\<close> of a \<open>str\<close>: the bytes that are not UTF-8 continuation bytes\<close>
  "codepoints s = length (filter (\<lambda>c. (of_char c :: nat) div 64 \<noteq> 2) s)"

definition py_type_name :: "json \<Rightarrow> string" where
  \<comment> \<open>\<open>type(v).__name__\<close> of what \<open>json\<close> parses a value to\<close>
  "py_type_name v =
     (case v of
        JNull \<Rightarrow> ''NoneType''
      | JBool b \<Rightarrow> ''bool''
      | JInt i \<Rightarrow> ''int''
      | JFloat x \<Rightarrow> ''float''
      | JStr s \<Rightarrow> ''str''
      | JList xs \<Rightarrow> ''list''
      | JDict d \<Rightarrow> ''dict'')"

definition py_len :: "json \<Rightarrow> exn + nat" where
  "py_len v =
     (case v of
        JList xs \<Rightarrow> Inr (length xs)
      | JDict d \<Rightarrow> Inr (length d)
      | JStr s \<Rightarrow> Inr (codepoints s)
      | _ \<Rightarrow> Inl (TypeError (''object of type '' @ quoted (py_type_name v) @
                          '' has no len()'')))"

definition fill_defaults :: "string \<Rightarrow> pydict \<Rightarrow> exn + pydict" where
  \<comment> \<open>lines 140 to 145\<close>
  "fill_defaults fname result =
     (let r1 = (if \<not> dict_has result ''success''
                then dict_set result ''success'' (JBool True) else result);
          r2 = (if \<not> dict_has r1 ''image_name''
                then dict_set r1 ''image_name'' (JStr fname) else r1)
      in if \<not> dict_has r2 ''detections_count''
         then (case py_len (case dict_get r2 ''detections'' of Some v \<Rightarrow> v | None \<Rightarrow> JList []) of
                 Inl e \<Rightarrow> Inl e
               | Inr n \<Rightarrow> Inr (dict_set r2 ''detections_count'' (JInt (int n))))
         else Inr r2)"

definition isinstance_Timeout :: "exn \<Rightarrow> bool" where
  "isinstance_Timeout e = (case e of Timeout _ \<Rightarrow> True | ConnectTimeout _ \<Rightarrow> True | _ \<Rightarrow> False)"

definition isinstance_ConnectionError :: "exn \<Rightarrow> bool" where
  "isinstance_ConnectionError e =
     (case e of ConnectionError _ \<Rightarrow> True | ConnectTimeout _ \<Rightarrow> True | _ \<Rightarrow> False)"

definition forward_try :: "gateway_env \<Rightarrow> filesystem \<Rightarrow> string \<Rightarrow> string \<Rightarrow> string \<Rightarrow>
    post_call list \<times> (exn + nat \<times> json)" where
  \<comment> \<open>the body of the inner \<open>try\<close>: the calls made, and what it raises or returns\<close>
  "forward_try env fs filepath fname ctype =
     (case files fs filepath of
        None \<Rightarrow> ([], Inl (FileNotFoundError filepath))
      | Some f \<Rightarrow>
     let call = (AI_BACKEND_URL env @ ''/detect'', fname, f, ctype) in
     (case post env call of
        Inl e \<Rightarrow> ([call], Inl e)
      | Inr response \<Rightarrow>
     if status_code response = 200 then
       (case response_json response of
          Inl m \<Rightarrow> ([call], Inl (RaisedError m))
        | Inr (JDict result) \<Rightarrow>
            (case fill_defaults fname result of
               Inl e \<Rightarrow> ([call], Inl e)
             | Inr filled \<Rightarrow> ([call], Inr (200, JDict filled)))
        | Inr v \<Rightarrow> ([call], Inl (AttributeError (quoted (py_type_name v) @
                       '' object has no attribute '' @ quoted ''get''))))
     else ([call], Inr (status_code response,
                        error_body (''AI backend error: '' @ response_text response)))))"

definition forward :: "gateway_env \<Rightarrow> filesystem \<Rightarrow> string \<Rightarrow> string \<Rightarrow> string \<Rightarrow>
    post_call list \<times> nat \<times> json" where
  \<comment> \<open>the inner \<open>try\<close> with its three \<open>except\<close> clauses, in their order\<close>
  "forward env fs filepath fname ctype =
     (case forward_try env fs filepath fname ctype of
        (calls, Inr r) \<Rightarrow> (calls, r)
      | (calls, Inl e) \<Rightarrow>
          (calls,
           if isinstance_Timeout e then (504, error_body ''AI backend request timeout'')
           else if isinstance_ConnectionError e
           then (503, error_body ''Cannot connect to AI backend service. Please ensure it's running.'')
           else (500, error_body (''Error communicating with AI backend: '' @ exn_str e))))"

subsection \<open>upload\<close>

definition unique_filename :: "string \<Rightarrow> string \<Rightarrow> string" where
  "unique_filename timestamp fname =
     (let (base_name, ext) = splitext fname in timestamp @ ''_'' @ base_name @ ext)"

definition staged_path :: "gateway_env \<Rightarrow> upload_file \<Rightarrow> string" where
  \<comment> \<open>\<open>filepath\<close> of line 105\<close>
  "staged_path env file =
     path_join (UPLOAD_FOLDER env)
       (unique_filename (strftime (ui_now env)) (secure_filename env (filename file)))"

definition content_type_or_default :: "upload_file \<Rightarrow> string" where
  \<comment> \<open>\<open>file.content_type or 'application/octet-stream'\<close>\<close>
  "content_type_or_default file =
     (case content_type file of
        None \<Rightarrow> ''application/octet-stream''
      | Some ct \<Rightarrow> if ct = [] then ''application/octet-stream'' else ct)"

definition upload_try :: "gateway_env \<Rightarrow> filesystem \<Rightarrow> request \<Rightarrow>
    filesystem \<times> post_call list \<times> (exn + nat \<times> json)" where
  \<comment> \<open>the body of the outer \<open>try\<close>\<close>
  "upload_try env fs req =
     (case request_files req of
        Inl e \<Rightarrow> (fs, [], Inl e)
      | Inr None \<Rightarrow> (fs, [], Inr (400, error_body ''No image file provided''))
      | Inr (Some file) \<Rightarrow>
     if filename file = [] then (fs, [], Inr (400, error_body ''No file selected''))
     else if \<not> allowed_file (filename file)
     then (fs, [], Inr (400, error_body
             ''Invalid file type. Allowed: png, jpg, jpeg, gif, bmp, webp''))
     else
     let fname = secure_filename env (filename file);
         filepath = staged_path env file
     in
     (case write_file fs filepath (Blob (contents file)) of
        Inl e \<Rightarrow> (fs, [], Inl e)
      | Inr fs1 \<Rightarrow>
     (case validate_image env fs1 filepath of
        (False, _, _) \<Rightarrow>
          (case os_remove fs1 filepath of
             Inl e \<Rightarrow> (fs1, [], Inl e)
           | Inr fs2 \<Rightarrow> (fs2, [], Inr (400, error_body ''Invalid image file'')))
      | (True, _, _) \<Rightarrow>
          (case forward env fs1 filepath fname (content_type_or_default file) of
             (calls, r) \<Rightarrow> (fs1, calls, Inr r)))))"

definition upload :: "gateway_env \<Rightarrow> filesystem \<Rightarrow> request \<Rightarrow> outcome" where
  "upload env fs req =
     (case upload_try env fs req of
        (fs', calls, Inr (st, b)) \<Rightarrow>
          \<lparr>out_fs = fs', out_calls = calls, out_status = st, out_body = b\<rparr>
      | (fs', calls, Inl e) \<Rightarrow>
          \<lparr>out_fs = fs', out_calls = calls, out_status = 500,
           out_body = error_body (''Internal server error: '' @ exn_str e)\<rparr>)"

subsection \<open>Requests that violate a constraint, and requests that are forwarded\<close>


definition forwarded_call :: "gateway_env \<Rightarrow> upload_file \<Rightarrow> post_call" where
  \<comment> \<open>the call of \<open>requests.post\<close> for an upload: lines 126 to 133\<close>
  "forwarded_call env file =
     (AI_BACKEND_URL env @ ''/detect'',
      secure_filename env (filename file),
      Blob (contents file),
      content_type_or_default file)"

definition reaches_forwarding :: "gateway_env \<Rightarrow> filesystem \<Rightarrow> request \<Rightarrow> upload_file \<Rightarrow> bool" where
  \<comment> \<open>the request passes every check and is staged: its size is within the limit, it
      holds the file, the filename is allowed, the staged file can be written and the
      content decodes as an image\<close>
  "reaches_forwarding env fs req file =
     (content_length req \<le> MAX_CONTENT_LENGTH \<and>
      image_file req = Some file \<and>
      filename file \<noteq> [] \<and>
      allowed_file (filename file) \<and>
      can_write fs (staged_path env file) \<and>
      image_verify env (Blob (contents file)) \<noteq> None)"

subsection \<open>Requests and upstream answers, for the examples\<close>

definition example_gateway :: "(post_call \<Rightarrow> exn + http_response) \<Rightarrow> gateway_env" where
  \<comment> \<open>a gateway in front of the given upstream; Werkzeug's \<open>secure_filename\<close> leaves the
      filename of the examples, \<open>cat.png\<close>, as it is\<close>
  "example_gateway upstream =
     \<lparr>ui_root = ''/srv'', AI_BACKEND_URL = ''http://127.0.0.1:8001'',
      secure_filename = (\<lambda>s. s),
      image_verify = (\<lambda>c. if c = Blob [137, 80] then Some (''PNG'', 640, 480) else None),
      post = upstream, ui_now = example_clock 0\<rparr>"

definition example_ui_fs :: filesystem where
  "example_ui_fs = \<lparr>dirs = {''/srv/static/uploads''}, files = Map.empty\<rparr>"

definition example_request :: request where
  "example_request = \<lparr>content_length = 2048, image_file = Some example_upload\<rparr>"

definition example_corrupt_request :: request where
  \<comment> \<open>an allowed filename over bytes that are no image\<close>
  "example_corrupt_request =
     \<lparr>content_length = 2048, image_file = Some (example_upload\<lparr>contents := [0, 1, 2]\<rparr>)\<rparr>"

definition example_oversize_corrupt_request :: request where
  \<comment> \<open>the corrupt upload in a request one byte over the limit\<close>
  "example_oversize_corrupt_request =
     \<lparr>content_length = 16 * 1024 * 1024 + 1,
      image_file = Some (example_upload\<lparr>contents := [0, 1, 2]\<rparr>)\<rparr>"

definition example_oversize_request :: request where
  "example_oversize_request =
     \<lparr>content_length = 16 * 1024 * 1024 + 1, image_file = Some example_upload\<rparr>"

definition example_text_request :: request where
  "example_text_request =
     \<lparr>content_length = 2048, image_file = Some (example_upload\<lparr>filename := ''notes.txt''\<rparr>)\<rparr>"

definition example_upstream_body :: pydict where
  "example_upstream_body =
     [(''success'', JBool True), (''image_name'', JStr ''original.png''),
      (''detections'', JList [])]"

definition upstream_answers :: "nat \<Rightarrow> post_call \<Rightarrow> exn + http_response" where
  \<comment> \<open>an upstream that answers every call with the given status and the example body\<close>
  "upstream_answers st call =
     Inr \<lparr>status_code = st, response_text = ''created'',
          response_json = Inr (JDict example_upstream_body)\<rparr>"

definition upstream_raises :: "exn \<Rightarrow> post_call \<Rightarrow> exn + http_response" where
  "upstream_raises e call = Inl e"

section \<open>Properties of the gateway's extension check\<close>

lemma rsplit1_append:
  "sep \<notin> set ext \<Longrightarrow> rsplit1 sep (stem @ sep # ext) = [stem, ext]"
proof -
  assume h: "sep \<notin> set ext"
  have t: "takeWhile (\<lambda>c. c \<noteq> sep) (rev ext @ sep # rev stem) = rev ext"
    using h by (subst takeWhile_append2) auto
  have d: "dropWhile (\<lambda>c. c \<noteq> sep) (rev ext @ sep # rev stem) = sep # rev stem"
    using h by (subst dropWhile_append2) auto
  show ?thesis
    by (simp add: rsplit1_def t d)
qed

lemma lower_allowed_entry: "e \<in> set ALLOWED_EXTENSIONS \<Longrightarrow> lower e = e"
  by (auto simp: ALLOWED_EXTENSIONS_def lower_def lower_char_def
      ascii_uppercase_def ascii_lowercase_def)

lemma lower_char_no_dot: "lower_char c = CHR ''.'' \<longleftrightarrow> c = CHR ''.''"
  by (auto simp: lower_char_def ascii_uppercase_def ascii_lowercase_def
      split: option.splits if_splits)

lemma lower_dot_free: "CHR ''.'' \<in> set (lower s) \<longleftrightarrow> CHR ''.'' \<in> set s"
proof (induction s)
  case Nil
  show ?case by (simp add: lower_def)
next
  case (Cons a s)
  have "(CHR ''.'' = lower_char a) = (CHR ''.'' = a)"
    by (simp add: eq_commute [of "CHR ''.''"] lower_char_no_dot)
  with Cons show ?case
    by (simp add: lower_def)
qed

lemma allowed_entry_dot_free: "e \<in> set ALLOWED_EXTENSIONS \<Longrightarrow> CHR ''.'' \<notin> set e"
  by (auto simp: ALLOWED_EXTENSIONS_def)

text \<open>
  C10. The extension check of \<open>allowed_file\<close> is case-insensitive: a filename whose
  extension (the part after its last dot) differs from an entry of the allow-list only
  in letter case is accepted; and a filename with no dot at all is rejected.
\<close>

theorem C10_allowed_file_case_insensitive:
  "(e \<in> set ALLOWED_EXTENSIONS \<and> differs_only_in_case ext e
      \<longrightarrow> allowed_file (stem @ ''.'' @ ext))
   \<and> (CHR ''.'' \<notin> set fname \<longrightarrow> \<not> allowed_file fname)"
proof (intro conjI impI)
  assume h: "e \<in> set ALLOWED_EXTENSIONS \<and> differs_only_in_case ext e"
  then have low: "lower ext = e"
    by (simp add: differs_only_in_case_def lower_allowed_entry)
  with h have "CHR ''.'' \<notin> set (lower ext)"
    by (simp add: allowed_entry_dot_free)
  then have "CHR ''.'' \<notin> set ext"
    by (simp add: lower_dot_free)
  then have "rsplit1 CHR ''.'' (stem @ CHR ''.'' # ext) = [stem, ext]"
    by (rule rsplit1_append)
  with h low show "allowed_file (stem @ ''.'' @ ext)"
    by (simp add: allowed_file_def)
next
  assume "CHR ''.'' \<notin> set fname"
  then show "\<not> allowed_file fname"
    by (simp add: allowed_file_def)
qed

theorem C10_allowed_file_witness:
  "''png'' \<in> set ALLOWED_EXTENSIONS \<and> differs_only_in_case ''PNG'' ''png''
   \<and> allowed_file ''photo.PNG''
   \<and> CHR ''.'' \<notin> set ''README'' \<and> \<not> allowed_file ''README''"
  using C10_allowed_file_case_insensitive [of "''png''" "''PNG''" "''photo''" "''README''"]
  by (simp add: ALLOWED_EXTENSIONS_def differs_only_in_case_def lower_def lower_char_def
      ascii_uppercase_def ascii_lowercase_def)

section \<open>Properties of the Detection Service\<close>

lemmas example_defs = example_image_def example_results_def example_clock_def
  example_env_def example_fs_def example_fs_without_json_dir_def example_upload_def

lemmas artifact_defs = img_artifact_path_def json_artifact_path_def img_artifact_name_def
  json_artifact_name_def

lemmas detect_eval = detect_objects_def detect_try_def startswith_def Let_def
  strftime_def pad2_def pad3_def pad4_def pad6_def digit_def isoformat_def
  splitext_def rfind_def write_file_def dirname_def rsplit1_def path_join_def
  IMAGES_DIR_def JSON_DIR_def RESULTS_DIR_def STATIC_DIR_def
  result_filename_img_def result_filename_json_def response_data_def
  parse_results_def exn_str_def convert_RGB_def basename_def NAME_MAX_def quoted_def

lemma artifact_paths_differ: "img_artifact_path env file \<noteq> json_artifact_path env file"
  by (simp add: img_artifact_path_def json_artifact_path_def path_join_def
      IMAGES_DIR_def JSON_DIR_def RESULTS_DIR_def STATIC_DIR_def)

lemma splitext_append: "splitext p = (b, e) \<Longrightarrow> p = b @ e"
  by (auto simp: splitext_def Let_def split: if_splits)

lemma dict_set_response_data:
  "dict_set (response_data f i d n t) ''result_json'' v =
   response_data f i d n t @ [(''result_json'', v)]"
  by (simp add: response_data_def)

text \<open>What a success response means for the file system and the body.\<close>

lemma detect_objects_success:
  assumes "detect_objects env fs file = (fs', Inr b)"
  shows "\<exists>img results.
           model env \<noteq> None \<and>
           files fs' (img_artifact_path env file) = Some (Blob (rendered results)) \<and>
           files fs' (json_artifact_path env file) =
             Some (JsonText (JDict (response_data file img (parse_results results)
                      (img_artifact_name env file) (now env 1)))) \<and>
           b = JDict (response_data file img (parse_results results)
                      (img_artifact_name env file) (now env 1) @
                 [(''result_json'',
                   JStr (''/static/results/json/'' @ json_artifact_name env file))])"
  using assms artifact_paths_differ [of env "file"]
  unfolding detect_objects_def detect_try_def Let_def
  by (auto intro!: exI split: option.splits sum.splits if_splits prod.splits
      simp: write_file_def artifact_defs dict_set_response_data)


subsection \<open>C1: both artifacts or neither\<close>




subsection \<open>C2: a content type that is not an image\<close>

text \<open>
  C2. The handler raises \<open>HTTPException(status_code=400)\<close> inside its own \<open>try\<close>, whose
  \<open>except Exception\<close> catches it and raises the 500 of every other failure. A request
  declared \<open>text/plain\<close> is answered 500, not 400; so is one with no content type.
\<close>

theorem C2_text_plain_is_answered_500:
  "detect_objects example_env example_fs (example_upload\<lparr>content_type := Some ''text/plain''\<rparr>) =
     (example_fs, Inl (HTTPException 500 ''Detection failed: 400: File must be an image''))"
  by (simp add: example_defs detect_eval)

lemma non_image_content_type_is_500:
  "model env \<noteq> None \<Longrightarrow> content_type file = Some ct \<Longrightarrow> \<not> startswith ct ''image/'' \<Longrightarrow>
   status_of (snd (detect_objects env fs file)) = 500 \<and> fst (detect_objects env fs file) = fs"
  by (auto simp: detect_objects_def detect_try_def status_of_def)

subsection \<open>C3: the JSON artifact and the returned body\<close>

text \<open>
  C3, as stated, fails: \<open>json.dump\<close> runs before \<open>result_json\<close> is added to the
  dictionary, so the body returned has a field the artifact lacks.
\<close>

theorem C3_artifact_lacks_result_json:
  "\<not> artifact_equals_body example_env example_fs example_upload"
  by (simp add: artifact_equals_body_def json_load_def example_defs detect_eval artifact_defs)

text \<open>
  C3, amended. After a success response the JSON artifact parses to an object without
  the field \<open>result_json\<close>, and the body returned is that object with \<open>result_json\<close>
  added at its end: on every other field the two agree.
\<close>

theorem C3_body_is_artifact_plus_result_json:
  assumes "detect_objects env fs file = (fs', Inr b)"
  shows "\<exists>c d. files fs' (json_artifact_path env file) = Some c \<and>
               json_load c = Some (JDict d) \<and>
               \<not> dict_has d ''result_json'' \<and>
               b = JDict (d @ [(''result_json'',
                               JStr (''/static/results/json/'' @ json_artifact_name env file))]) \<and>
               (\<forall>k. k \<noteq> ''result_json'' \<longrightarrow> jget b k = dict_get d k)"
proof -
  from detect_objects_success [OF assms]
  obtain img results where
    j: "files fs' (json_artifact_path env file) =
          Some (JsonText (JDict (response_data file img (parse_results results)
                   (img_artifact_name env file) (now env 1))))" and
    b: "b = JDict (response_data file img (parse_results results)
                   (img_artifact_name env file) (now env 1) @
              [(''result_json'',
                JStr (''/static/results/json/'' @ json_artifact_name env file))])"
    by blast
  let ?d = "response_data file img (parse_results results) (img_artifact_name env file) (now env 1)"
  have fresh: "\<not> dict_has ?d ''result_json''"
    by (simp add: dict_has_def response_data_def)
  have same: "\<forall>k. k \<noteq> ''result_json'' \<longrightarrow> jget b k = dict_get ?d k"
    by (simp add: b jget_def dict_get_def map_add_def split: option.splits)
  from j b fresh same show ?thesis
    by (simp add: json_load_def)
qed

theorem C3_body_witness:
  "\<exists>fs' b c d.
     detect_objects example_env example_fs example_upload = (fs', Inr b) \<and>
     files fs' (json_artifact_path example_env example_upload) = Some c \<and>
     json_load c = Some (JDict d) \<and>
     \<not> dict_has d ''result_json'' \<and>
     jget b ''result_json'' =
       Some (JStr ''/static/results/json/result_20240517_093007_cat.json'') \<and>
     jget b ''detections_count'' = dict_get d ''detections_count''"
proof -
  have "\<exists>fs' b. detect_objects example_env example_fs example_upload = (fs', Inr b)"
    by (simp add: example_defs detect_eval)
  then obtain fs' b where
    run: "detect_objects example_env example_fs example_upload = (fs', Inr b)"
    by blast
  from C3_body_is_artifact_plus_result_json [OF run]
  obtain c d where
    "files fs' (json_artifact_path example_env example_upload) = Some c"
    "json_load c = Some (JDict d)"
    "\<not> dict_has d ''result_json''"
    "b = JDict (d @ [(''result_json'',
          JStr (''/static/results/json/'' @ json_artifact_name example_env example_upload))])"
    "\<forall>k. k \<noteq> ''result_json'' \<longrightarrow> jget b k = dict_get d k"
    by blast
  moreover have "json_artifact_name example_env example_upload = ''result_20240517_093007_cat.json''"
    by (simp add: example_defs detect_eval artifact_defs)
  moreover have "jget b ''result_json'' =
      Some (JStr (''/static/results/json/'' @ json_artifact_name example_env example_upload))"
    using calculation(3,4) by (simp add: jget_def dict_get_def dict_has_def map_add_def
        split: option.splits) (metis map_of_eq_None_iff option.distinct(1))
  ultimately show ?thesis
    using run by auto
qed

subsection \<open>C4: two uploads of one filename within one second\<close>

text \<open>
  C4. The artifact names hold the clock reading to the second and the basename, and
  nothing else. Two uploads named \<open>cat.png\<close>, read off the clock 400 milliseconds apart
  within 09:30:07, get the same two names, and the second request replaces the annotated
  image the first one wrote.
\<close>

theorem C4_same_second_same_names:
  "same_second (now example_env 0) (now example_env_later 0)
   \<and> now example_env 0 \<noteq> now example_env_later 0
   \<and> img_artifact_name example_env example_upload = ''result_20240517_093007_cat.jpg''
   \<and> img_artifact_name example_env_later example_upload = ''result_20240517_093007_cat.jpg''
   \<and> json_artifact_name example_env example_upload =
       json_artifact_name example_env_later example_upload
   \<and> files (fst (detect_objects example_env example_fs example_upload))
         (img_artifact_path example_env example_upload) = Some (Blob [255, 216, 255])
   \<and> files (fst (detect_objects example_env_later
                  (fst (detect_objects example_env example_fs example_upload)) example_upload))
         (img_artifact_path example_env example_upload) = Some (Blob [255, 216, 0])"
  by (simp add: example_env_later_def same_second_def example_defs detect_eval artifact_defs)

subsection \<open>C9: the image artifact is a .jpg\<close>

lemma endswith_append: "endswith (xs @ ys) ys"
  by (simp add: endswith_def)

text \<open>
  C9. After a success response the annotated image is stored under a name that ends in
  \<open>.jpg\<close>, whatever the extension of the upload: the name is built from the basename
  that \<open>os.path.splitext\<close> leaves, the extension it splits off is dropped, and the body's
  \<open>result_image\<close> refers to that name.
\<close>

theorem C9_image_artifact_is_jpg:
  assumes "detect_objects env fs file = (fs', Inr b)"
  shows "endswith (img_artifact_name env file) ''.jpg''
       \<and> files fs' (path_join (IMAGES_DIR env) (img_artifact_name env file)) \<noteq> None
       \<and> jget b ''result_image'' =
           Some (JStr (''/static/results/image/'' @ img_artifact_name env file))
       \<and> (\<exists>base ext. splitext (filename file) = (base, ext) \<and>
             filename file = base @ ext \<and>
             img_artifact_name env file =
               ''result_'' @ strftime (now env 0) @ ''_'' @ base @ ''.jpg'')"
proof -
  obtain base ext where sp: "splitext (filename file) = (base, ext)"
    by (cases "splitext (filename file)")
  then have whole: "filename file = base @ ext"
    by (rule splitext_append)
  have nm: "img_artifact_name env file = ''result_'' @ strftime (now env 0) @ ''_'' @ base @ ''.jpg''"
    by (simp add: img_artifact_name_def result_filename_img_def sp)
  have "img_artifact_name env file = (''result_'' @ strftime (now env 0) @ ''_'' @ base) @ ''.jpg''"
    by (simp add: nm)
  then have e: "endswith (img_artifact_name env file) ''.jpg''"
    by (simp only: endswith_append)
  from detect_objects_success [OF assms]
  obtain img results where
    f: "files fs' (img_artifact_path env file) = Some (Blob (rendered results))" and
    b: "b = JDict (response_data file img (parse_results results)
                   (img_artifact_name env file) (now env 1) @
              [(''result_json'',
                JStr (''/static/results/json/'' @ json_artifact_name env file))])"
    by blast
  have r: "jget b ''result_image'' =
      Some (JStr (''/static/results/image/'' @ img_artifact_name env file))"
    by (simp add: b jget_def dict_get_def response_data_def)
  from e f r sp whole nm show ?thesis
    by (simp add: img_artifact_path_def)
qed

theorem C9_image_artifact_witness:
  "\<exists>fs' b.
     detect_objects example_env example_fs example_upload = (fs', Inr b) \<and>
     img_artifact_name example_env example_upload = ''result_20240517_093007_cat.jpg'' \<and>
     endswith (img_artifact_name example_env example_upload) ''.jpg'' \<and>
     files fs' ''/srv/static/results/image/result_20240517_093007_cat.jpg'' \<noteq> None \<and>
     jget b ''result_image'' =
       Some (JStr ''/static/results/image/result_20240517_093007_cat.jpg'')"
proof -
  have "\<exists>fs' b. detect_objects example_env example_fs example_upload = (fs', Inr b)"
    by (simp add: example_defs detect_eval)
  then obtain fs' b where
    run: "detect_objects example_env example_fs example_upload = (fs', Inr b)"
    by blast
  have nm: "img_artifact_name example_env example_upload = ''result_20240517_093007_cat.jpg''"
    by (simp add: example_defs detect_eval artifact_defs)
  have dir: "IMAGES_DIR example_env = ''/srv/static/results/image''"
    by (simp add: example_defs detect_eval)
  from C9_image_artifact_is_jpg [OF run] nm dir
  have "endswith (img_artifact_name example_env example_upload) ''.jpg'' \<and>
     files fs' ''/srv/static/results/image/result_20240517_093007_cat.jpg'' \<noteq> None \<and>
     jget b ''result_image'' =
       Some (JStr ''/static/results/image/result_20240517_093007_cat.jpg'')"
    by (simp add: path_join_def)
  with run nm show ?thesis
    by blast
qed

subsection \<open>C6: the centre of a detection\<close>

lemma parse_rows_nth:
  "i < length rs \<Longrightarrow> parse_rows k rs ! i = detection (k + i) (rs ! i)"
proof (induction rs arbitrary: k i)
  case Nil
  then show ?case by simp
next
  case (Cons r rs)
  show ?case
  proof (cases i)
    case 0
    then show ?thesis by simp
  next
    case (Suc j)
    with Cons.prems have "j < length rs" by simp
    from Cons.IH [OF this, of "Suc k"] Suc show ?thesis by simp
  qed
qed

lemma length_parse_rows: "length (parse_rows k rs) = length rs"
  by (induction rs arbitrary: k) simp_all

lemmas json_eval = jpath_def jget_def dict_get_def detection_def

text \<open>The doubles of the example, computed: 0.07, 0.03 and 0.04 are the doubles nearest
  to these decimals.\<close>

lemma py_round_0: "py_round 0 2 = 0"
  by code_simp

lemma py_round_half: "py_round (1 / 2) 2 = 1 / 2"
  by code_simp

lemma py_round_quarter: "py_round (1 / 4) 2 = 1 / 4"
  by code_simp

lemma py_round_17_256: "py_round (17 / 256) 2 = 1261007895663739 / 18014398509481984"
  by code_simp

lemma fadd_0_17_256: "fadd 0 (17 / 256) = 17 / 256"
  by code_simp

lemma fdiv_17_256: "fdiv (17 / 256) 2 = 17 / 512"
  by code_simp

lemma py_round_17_512: "py_round (17 / 512) 2 = 1080863910568919 / 36028797018963968"
  by code_simp

lemma fadd_0_rounded: "fadd 0 (1261007895663739 / 18014398509481984) =
    1261007895663739 / 18014398509481984"
  by code_simp

lemma fdiv_rounded: "fdiv (1261007895663739 / 18014398509481984) 2 =
    1261007895663739 / 36028797018963968"
  by code_simp

lemma py_round_mid_of_rounded: "py_round (1261007895663739 / 36028797018963968) 2 =
    5764607523034235 / 144115188075855872"
  by code_simp

text \<open>
  C6, as stated, fails. \<open>parse_results\<close> rounds the midpoint of the raw corners, not the
  midpoint of the rounded corners. For a box from \<open>xmin = 0.0\<close> to \<open>xmax = 0.06640625\<close>
  the fields are \<open>x_min = 0.0\<close>, \<open>x_max = 0.07\<close> and \<open>center.x = round(0.033203125, 2) = 0.03\<close>,
  while \<open>round((0.0 + 0.07) / 2, 2)\<close> is \<open>0.04\<close>.
\<close>

theorem C6_center_is_not_midpoint_of_rounded_box:
  "jpath (parse_results example_results ! 0) ''bounding_box'' ''x_min'' = Some (JFloat 0)
   \<and> jpath (parse_results example_results ! 0) ''bounding_box'' ''x_max'' =
       Some (JFloat (1261007895663739 / 18014398509481984))
   \<and> jpath (parse_results example_results ! 0) ''center'' ''x'' =
       Some (JFloat (1080863910568919 / 36028797018963968))
   \<and> py_round (fdiv (fadd 0 (1261007895663739 / 18014398509481984)) 2) 2 =
       5764607523034235 / 144115188075855872
   \<and> \<not> center_is_midpoint_of_box (parse_results example_results ! 0)"
  by (simp add: center_is_midpoint_of_box_def json_eval parse_results_def example_results_def
      py_round_0 py_round_17_256 fadd_0_17_256 fdiv_17_256 py_round_17_512
      fadd_0_rounded fdiv_rounded py_round_mid_of_rounded)

text \<open>
  C6, amended. For every detection, the \<open>bounding_box\<close> fields are the corners of the
  model's row rounded to two decimals, and \<open>center.x\<close>, \<open>center.y\<close> are
  \<open>round((xmin + xmax) / 2, 2)\<close>, \<open>round((ymin + ymax) / 2, 2)\<close> of the row's corners
  before rounding. The centre equals the rounded midpoint of the \<open>bounding_box\<close> fields
  whenever rounding leaves the four corners as they are.
\<close>

theorem C6_center_is_midpoint_of_raw_corners:
  assumes "i < length (predictions results)"
    and "r = predictions results ! i"
    and "d = parse_results results ! i"
  shows "jpath d ''bounding_box'' ''x_min'' = Some (JFloat (py_round (xmin r) 2))
       \<and> jpath d ''bounding_box'' ''y_min'' = Some (JFloat (py_round (ymin r) 2))
       \<and> jpath d ''bounding_box'' ''x_max'' = Some (JFloat (py_round (xmax r) 2))
       \<and> jpath d ''bounding_box'' ''y_max'' = Some (JFloat (py_round (ymax r) 2))
       \<and> jpath d ''center'' ''x'' = Some (JFloat (py_round (fdiv (fadd (xmin r) (xmax r)) 2) 2))
       \<and> jpath d ''center'' ''y'' = Some (JFloat (py_round (fdiv (fadd (ymin r) (ymax r)) 2) 2))
       \<and> (py_round (xmin r) 2 = xmin r \<and> py_round (xmax r) 2 = xmax r \<and>
          py_round (ymin r) 2 = ymin r \<and> py_round (ymax r) 2 = ymax r
          \<longrightarrow> center_is_midpoint_of_box d)"
proof -
  have d: "d = detection i r"
    using assms parse_rows_nth [of i "predictions results" 0]
    by (simp add: parse_results_def)
  have fields:
    "jpath d ''bounding_box'' ''x_min'' = Some (JFloat (py_round (xmin r) 2))"
    "jpath d ''bounding_box'' ''y_min'' = Some (JFloat (py_round (ymin r) 2))"
    "jpath d ''bounding_box'' ''x_max'' = Some (JFloat (py_round (xmax r) 2))"
    "jpath d ''bounding_box'' ''y_max'' = Some (JFloat (py_round (ymax r) 2))"
    "jpath d ''center'' ''x'' = Some (JFloat (py_round (fdiv (fadd (xmin r) (xmax r)) 2) 2))"
    "jpath d ''center'' ''y'' = Some (JFloat (py_round (fdiv (fadd (ymin r) (ymax r)) 2) 2))"
    by (simp_all add: d json_eval)
  have "center_is_midpoint_of_box d"
    if "py_round (xmin r) 2 = xmin r \<and> py_round (xmax r) 2 = xmax r \<and>
        py_round (ymin r) 2 = ymin r \<and> py_round (ymax r) 2 = ymax r"
    using that by (simp add: center_is_midpoint_of_box_def fields)
  with fields show ?thesis
    by blast
qed

theorem C6_center_witness:
  "0 < length (predictions example_results_rounded)
   \<and> py_round (xmin (predictions example_results_rounded ! 0)) 2 =
       xmin (predictions example_results_rounded ! 0)
   \<and> py_round (xmax (predictions example_results_rounded ! 0)) 2 =
       xmax (predictions example_results_rounded ! 0)
   \<and> py_round (ymin (predictions example_results_rounded ! 0)) 2 =
       ymin (predictions example_results_rounded ! 0)
   \<and> py_round (ymax (predictions example_results_rounded ! 0)) 2 =
       ymax (predictions example_results_rounded ! 0)
   \<and> jpath (parse_results example_results_rounded ! 0) ''bounding_box'' ''x_max'' =
       Some (JFloat (1 / 2))
   \<and> center_is_midpoint_of_box (parse_results example_results_rounded ! 0)"
proof -
  have n: "0 < length (predictions example_results_rounded)"
    by (simp add: example_results_rounded_def)
  have c: "py_round (xmin (predictions example_results_rounded ! 0)) 2 =
       xmin (predictions example_results_rounded ! 0)
     \<and> py_round (xmax (predictions example_results_rounded ! 0)) 2 =
       xmax (predictions example_results_rounded ! 0)
     \<and> py_round (ymin (predictions example_results_rounded ! 0)) 2 =
       ymin (predictions example_results_rounded ! 0)
     \<and> py_round (ymax (predictions example_results_rounded ! 0)) 2 =
       ymax (predictions example_results_rounded ! 0)"
    by (simp add: example_results_rounded_def py_round_0 py_round_half py_round_quarter)
  have x: "xmax (predictions example_results_rounded ! 0) = 1 / 2"
    by (simp add: example_results_rounded_def)
  from C6_center_is_midpoint_of_raw_corners [OF n refl refl] c x
  have "jpath (parse_results example_results_rounded ! 0) ''bounding_box'' ''x_max'' =
       Some (JFloat (1 / 2))
     \<and> center_is_midpoint_of_box (parse_results example_results_rounded ! 0)"
    by (simp add: py_round_half)
  with n c show ?thesis
    by simp
qed

section \<open>Properties of the gateway\<close>

lemmas gateway_examples = example_gateway_def example_ui_fs_def example_request_def
  example_corrupt_request_def example_oversize_request_def example_text_request_def
  example_upstream_body_def upstream_answers_def upstream_raises_def
  example_upload_def example_clock_def

lemmas gateway_eval = upload_def upload_try_def request_files_def MAX_CONTENT_LENGTH_def
  allowed_file_def ALLOWED_EXTENSIONS_def lower_def lower_char_def ascii_uppercase_def
  ascii_lowercase_def rsplit1_def staged_path_def unique_filename_def UPLOAD_FOLDER_def
  path_join_def splitext_def rfind_def strftime_def pad2_def pad4_def digit_def
  write_file_def dirname_def validate_image_def os_remove_def forward_def forward_try_def
  fill_defaults_def dict_has_def dict_get_def py_len_def error_body_def exn_str_def
  isinstance_Timeout_def isinstance_ConnectionError_def Let_def basename_def
  NAME_MAX_def quoted_def can_write_def py_type_name_def


subsection \<open>C8: requests that violate an input constraint\<close>




subsection \<open>C7: an allowed extension over bytes that are no image\<close>

text \<open>
  C7, as stated, fails. A corrupt \<open>cat.png\<close> in a request one byte over 16 MiB has an
  allowed extension and bytes that do not decode, and is answered 500: Flask raises
  \<open>RequestEntityTooLarge\<close> at the first read of \<open>request.files\<close>, before anything is staged.
\<close>

theorem C7_oversize_corrupt_upload_is_answered_500:
  "image_file example_oversize_corrupt_request = Some (example_upload\<lparr>contents := [0, 1, 2]\<rparr>)
   \<and> allowed_file (filename (example_upload\<lparr>contents := [0, 1, 2]\<rparr>))
   \<and> image_verify (example_gateway (upstream_answers 200)) (Blob [0, 1, 2]) = None
   \<and> out_status (upload (example_gateway (upstream_answers 200)) example_ui_fs
         example_oversize_corrupt_request) = 500
   \<and> out_status (upload (example_gateway (upstream_answers 200)) example_ui_fs
         example_oversize_corrupt_request) \<noteq> 400
   \<and> out_fs (upload (example_gateway (upstream_answers 200)) example_ui_fs
         example_oversize_corrupt_request) = example_ui_fs"
  by (simp add: example_oversize_corrupt_request_def gateway_examples gateway_eval)

text \<open>
  C7, amended. A request within the size limit whose file has an allowed extension, but
  whose bytes \<open>validate_image\<close> cannot decode, and whose staged file the gateway can write
  (the staging directory exists and the staged name has at most 255 bytes), is staged,
  fails validation, and is answered 400 after \<open>os.remove\<close> has deleted the staged file: no
  file is left at the staged path, every other file is as before, and nothing is
  forwarded.
\<close>

theorem C7_corrupt_image_is_rejected_and_unstaged:
  assumes "content_length req \<le> MAX_CONTENT_LENGTH"
    and "image_file req = Some file"
    and "allowed_file (filename file)"
    and "can_write fs (staged_path env file)"
    and "image_verify env (Blob (contents file)) = None"
  shows "out_status (upload env fs req) = 400
       \<and> out_body (upload env fs req) = error_body ''Invalid image file''
       \<and> files (out_fs (upload env fs req)) (staged_path env file) = None
       \<and> (\<forall>p. p \<noteq> staged_path env file \<longrightarrow> files (out_fs (upload env fs req)) p = files fs p)
       \<and> dirs (out_fs (upload env fs req)) = dirs fs
       \<and> out_calls (upload env fs req) = []"
proof -
  have named: "filename file \<noteq> []"
    using assms(3) by (auto simp: allowed_file_def)
  have staged: "write_file fs (staged_path env file) (Blob (contents file)) =
      Inr (fs\<lparr>files := (files fs)(staged_path env file \<mapsto> Blob (contents file))\<rparr>)"
    using assms(4) by (simp add: write_file_def can_write_def)
  show ?thesis
    using assms(1,2,3,5) named
    by (simp add: upload_def upload_try_def request_files_def staged
        validate_image_def os_remove_def Let_def)
qed

text \<open>Without the second condition the amended claim fails as well: a staged name of more
  than 255 bytes cannot be written, and the request is answered 500.\<close>

lemma upload_long_staged_name_is_500:
  assumes "content_length req \<le> MAX_CONTENT_LENGTH"
    and "image_file req = Some file"
    and "allowed_file (filename file)"
    and "dirname (staged_path env file) \<in> dirs fs"
    and "NAME_MAX < length (basename (staged_path env file))"
  shows "out_status (upload env fs req) = 500 \<and> out_fs (upload env fs req) = fs
       \<and> out_calls (upload env fs req) = []"
proof -
  have named: "filename file \<noteq> []"
    using assms(3) by (auto simp: allowed_file_def)
  show ?thesis
    using assms named
    by (simp add: upload_def upload_try_def request_files_def write_file_def Let_def)
qed

theorem C7_corrupt_image_witness:
  "content_length example_corrupt_request \<le> MAX_CONTENT_LENGTH
   \<and> image_file example_corrupt_request = Some (example_upload\<lparr>contents := [0, 1, 2]\<rparr>)
   \<and> allowed_file (filename (example_upload\<lparr>contents := [0, 1, 2]\<rparr>))
   \<and> staged_path (example_gateway (upstream_answers 200))
         (example_upload\<lparr>contents := [0, 1, 2]\<rparr>) =
       ''/srv/static/uploads/20240517_093007_cat.png''
   \<and> can_write example_ui_fs ''/srv/static/uploads/20240517_093007_cat.png''
   \<and> out_status (upload (example_gateway (upstream_answers 200)) example_ui_fs
         example_corrupt_request) = 400
   \<and> files (out_fs (upload (example_gateway (upstream_answers 200)) example_ui_fs
         example_corrupt_request)) ''/srv/static/uploads/20240517_093007_cat.png'' = None
   \<and> out_calls (upload (example_gateway (upstream_answers 200)) example_ui_fs
         example_corrupt_request) = []"
proof -
  let ?env = "example_gateway (upstream_answers 200)"
  let ?file = "example_upload\<lparr>contents := [0, 1, 2]\<rparr>"
  have h1: "content_length example_corrupt_request \<le> MAX_CONTENT_LENGTH"
    by (simp add: gateway_examples gateway_eval)
  have h2: "image_file example_corrupt_request = Some ?file"
    by (simp add: gateway_examples)
  have h3: "allowed_file (filename ?file)"
    by (simp add: gateway_examples gateway_eval)
  have p: "staged_path ?env ?file = ''/srv/static/uploads/20240517_093007_cat.png''"
    by (simp add: gateway_examples gateway_eval)
  have w: "can_write example_ui_fs ''/srv/static/uploads/20240517_093007_cat.png''"
    by (simp add: gateway_examples gateway_eval)
  have h4: "can_write example_ui_fs (staged_path ?env ?file)"
    by (simp only: p w)
  have h5: "image_verify ?env (Blob (contents ?file)) = None"
    by (simp add: gateway_examples)
  from C7_corrupt_image_is_rejected_and_unstaged [OF h1 h2 h3 h4 h5] h1 h2 h3 p w
  show ?thesis
    by simp
qed

subsection \<open>C5: how the upstream outcome is mapped\<close>

lemma upload_forwards:
  assumes "reaches_forwarding env fs req file"
  shows "upload env fs req =
     (case forward env (fs\<lparr>files := (files fs)(staged_path env file \<mapsto> Blob (contents file))\<rparr>)
             (staged_path env file) (secure_filename env (filename file))
             (content_type_or_default file) of
        (calls, st, b) \<Rightarrow>
          \<lparr>out_fs = fs\<lparr>files := (files fs)(staged_path env file \<mapsto> Blob (contents file))\<rparr>,
           out_calls = calls, out_status = st, out_body = b\<rparr>)"
  using assms
  by (auto simp: reaches_forwarding_def can_write_def upload_def upload_try_def
      request_files_def write_file_def validate_image_def forwarded_call_def Let_def
      split: option.splits prod.splits)

lemma forward_try_staged:
  "forward_try env (fs\<lparr>files := (files fs)(staged_path env file \<mapsto> Blob (contents file))\<rparr>)
      (staged_path env file) (secure_filename env (filename file))
      (content_type_or_default file) =
   (case post env (forwarded_call env file) of
      Inl e \<Rightarrow> ([forwarded_call env file], Inl e)
    | Inr response \<Rightarrow>
        if status_code response = 200 then
          (case response_json response of
             Inl m \<Rightarrow> ([forwarded_call env file], Inl (RaisedError m))
           | Inr (JDict result) \<Rightarrow>
               (case fill_defaults (secure_filename env (filename file)) result of
                  Inl e \<Rightarrow> ([forwarded_call env file], Inl e)
                | Inr filled \<Rightarrow> ([forwarded_call env file], Inr (200, JDict filled)))
           | Inr v \<Rightarrow> ([forwarded_call env file],
                      Inl (AttributeError (quoted (py_type_name v) @
                        '' object has no attribute '' @ quoted ''get''))))
        else ([forwarded_call env file],
              Inr (status_code response,
                   error_body (''AI backend error: '' @ response_text response))))"
  unfolding forward_try_def forwarded_call_def Let_def
  by simp


lemma dict_set_absent: "\<not> dict_has d k \<Longrightarrow> dict_set d k v = d @ [(k, v)]"
  by (induction d) (auto simp: dict_has_def)

lemma dict_has_append: "dict_has (d @ e) k = (dict_has d k \<or> dict_has e k)"
  by (auto simp: dict_has_def)

lemma dict_get_append_present: "dict_has d k \<Longrightarrow> dict_get (d @ e) k = dict_get d k"
  by (auto simp: dict_has_def dict_get_def map_add_def split: option.splits)
    (metis map_of_eq_None_iff option.distinct(1) fst_conv image_eqI)

lemma fill_defaults_Inr:
  assumes "fill_defaults fname result = Inr filled"
  shows "(\<exists>added. filled = result @ added \<and>
            fst ` set added \<subseteq> {''success'', ''image_name'', ''detections_count''})
       \<and> (\<forall>k. dict_has result k \<longrightarrow> dict_get filled k = dict_get result k)
       \<and> dict_has filled ''success''
       \<and> dict_has filled ''image_name''
       \<and> dict_has filled ''detections_count''"
proof -
  define r1 where "r1 = (if \<not> dict_has result ''success''
                then dict_set result ''success'' (JBool True) else result)"
  define r2 where "r2 = (if \<not> dict_has r1 ''image_name''
                then dict_set r1 ''image_name'' (JStr fname) else r1)"
  have a1: "\<exists>added. r1 = result @ added \<and> fst ` set added \<subseteq> {''success''}"
    by (auto simp: r1_def dict_set_absent)
  have h1: "dict_has r1 ''success''"
    by (auto simp: r1_def dict_set_absent dict_has_append) (simp add: dict_has_def)
  have a2: "\<exists>added. r2 = r1 @ added \<and> fst ` set added \<subseteq> {''image_name''}"
    by (auto simp: r2_def dict_set_absent)
  have h2: "dict_has r2 ''image_name''"
    by (auto simp: r2_def dict_set_absent dict_has_append) (simp add: dict_has_def)
  have fd: "fill_defaults fname result =
      (if \<not> dict_has r2 ''detections_count''
       then (case py_len (case dict_get r2 ''detections'' of Some v \<Rightarrow> v | None \<Rightarrow> JList []) of
               Inl e \<Rightarrow> Inl e
             | Inr n \<Rightarrow> Inr (dict_set r2 ''detections_count'' (JInt (int n))))
       else Inr r2)"
    unfolding fill_defaults_def Let_def r1_def r2_def by (rule refl)
  have a3: "\<exists>added. filled = r2 @ added \<and> fst ` set added \<subseteq> {''detections_count''}"
    using assms unfolding fd
    by (auto simp: dict_set_absent split: if_splits sum.splits)
  have h3: "dict_has filled ''detections_count''"
    using assms unfolding fd
    by (auto simp: dict_set_absent dict_has_append split: if_splits sum.splits)
      (simp add: dict_has_def)
  from a1 a2 a3 obtain x y z where
    xyz: "r1 = result @ x" "r2 = r1 @ y" "filled = r2 @ z"
      "fst ` set x \<subseteq> {''success''}" "fst ` set y \<subseteq> {''image_name''}"
      "fst ` set z \<subseteq> {''detections_count''}"
    by blast
  then have whole: "filled = result @ (x @ y @ z)"
    by simp
  have keys: "fst ` set (x @ y @ z) \<subseteq> {''success'', ''image_name'', ''detections_count''}"
    using xyz(4-6) by auto
  have keep: "\<forall>k. dict_has result k \<longrightarrow> dict_get filled k = dict_get result k"
    by (simp add: whole dict_get_append_present)
  have "dict_has filled ''success''"
    using h1 xyz(1-3) by (auto simp: dict_has_append)
  moreover have "dict_has filled ''image_name''"
    using h2 xyz(1-3) by (auto simp: dict_has_append)
  ultimately show ?thesis
    using whole keys keep h3 by blast
qed

lemma fill_defaults_Inl:
  "fill_defaults fname result = Inl e \<Longrightarrow>
   \<not> isinstance_Timeout e \<and> \<not> isinstance_ConnectionError e"
  by (auto simp: fill_defaults_def Let_def py_len_def isinstance_Timeout_def
      isinstance_ConnectionError_def split: if_splits sum.splits json.splits option.splits)


text \<open>
  C5, as stated, fails for the success statuses other than 200: the gateway tests
  \<open>response.status_code == 200\<close>. An upstream answer 201 with a body that says
  \<open>success: true\<close> is answered 201 with the error body, \<open>success: false\<close>.
\<close>

theorem C5_status_201_is_not_passed_through:
  "reaches_forwarding (example_gateway (upstream_answers 201)) example_ui_fs example_request
     example_upload
   \<and> post (example_gateway (upstream_answers 201))
        (forwarded_call (example_gateway (upstream_answers 201)) example_upload) =
       Inr \<lparr>status_code = 201, response_text = ''created'',
            response_json = Inr (JDict example_upstream_body)\<rparr>
   \<and> jget (JDict example_upstream_body) ''success'' = Some (JBool True)
   \<and> out_status (upload (example_gateway (upstream_answers 201)) example_ui_fs example_request)
        = 201
   \<and> out_body (upload (example_gateway (upstream_answers 201)) example_ui_fs example_request)
        = error_body ''AI backend error: created''
   \<and> jget (out_body (upload (example_gateway (upstream_answers 201)) example_ui_fs
        example_request)) ''success'' = Some (JBool False)"
  by (simp add: reaches_forwarding_def forwarded_call_def content_type_or_default_def
      jget_def gateway_examples gateway_eval)

text \<open>
  C5, amended. For every request that is forwarded, the gateway calls the Detection
  Service once, and:
  an upstream answer 200 whose body is a JSON object is answered 200 with that object,
  to which \<open>success\<close>, \<open>image_name\<close> and \<open>detections_count\<close> are appended when absent and in
  which no field the upstream sent is changed;
  an upstream answer with any other status, 2xx or not, is answered with that status and
  the error body;
  an exception that is a \<open>Timeout\<close> (a \<open>ConnectTimeout\<close> is one) gives 504;
  a \<open>ConnectionError\<close> that is no \<open>Timeout\<close> gives 503;
  any other exception gives 500, and so does an answer 200 whose body is no JSON, no
  object, or an object without \<open>detections_count\<close> whose \<open>detections\<close> has no length.
\<close>

theorem C5_response_mapping:
  assumes "reaches_forwarding env fs req file"
    and "call = forwarded_call env file"
    and "fname = secure_filename env (filename file)"
  shows "out_calls (upload env fs req) = [call]
       \<and> (post env call = Inr response \<and> status_code response = 200 \<and>
          response_json response = Inr (JDict result) \<and>
          fill_defaults fname result = Inr filled
          \<longrightarrow> out_status (upload env fs req) = 200 \<and>
              out_body (upload env fs req) = JDict filled \<and>
              (\<exists>added. filled = result @ added \<and>
                 fst ` set added \<subseteq> {''success'', ''image_name'', ''detections_count''}) \<and>
              (\<forall>k. dict_has result k \<longrightarrow> dict_get filled k = dict_get result k) \<and>
              dict_has filled ''success'' \<and> dict_has filled ''image_name'' \<and>
              dict_has filled ''detections_count'')
       \<and> (post env call = Inr response \<and> status_code response \<noteq> 200
          \<longrightarrow> out_status (upload env fs req) = status_code response \<and>
              out_body (upload env fs req) =
                error_body (''AI backend error: '' @ response_text response))
       \<and> (post env call = Inl e \<and> isinstance_Timeout e
          \<longrightarrow> out_status (upload env fs req) = 504 \<and>
              out_body (upload env fs req) = error_body ''AI backend request timeout'')
       \<and> (post env call = Inl e \<and> \<not> isinstance_Timeout e \<and> isinstance_ConnectionError e
          \<longrightarrow> out_status (upload env fs req) = 503 \<and>
              jget (out_body (upload env fs req)) ''success'' = Some (JBool False))
       \<and> (post env call = Inl e \<and> \<not> isinstance_Timeout e \<and> \<not> isinstance_ConnectionError e
          \<longrightarrow> out_status (upload env fs req) = 500 \<and>
              out_body (upload env fs req) =
                error_body (''Error communicating with AI backend: '' @ exn_str e))
       \<and> (post env call = Inr response \<and> status_code response = 200 \<and>
          (response_json response = Inl m \<or>
           (response_json response = Inr v \<and> (\<forall>d. v \<noteq> JDict d)) \<or>
           (response_json response = Inr (JDict result) \<and> fill_defaults fname result = Inl e))
          \<longrightarrow> out_status (upload env fs req) = 500 \<and>
              jget (out_body (upload env fs req)) ''success'' = Some (JBool False))"
proof -
  note u = upload_forwards [OF assms(1)] forward_def forward_try_staged
  have c1: "out_calls (upload env fs req) = [call]"
    unfolding assms(2,3) by (auto simp: u split: sum.splits json.splits)
  have c2: "post env call = Inr response \<and> status_code response = 200 \<and>
          response_json response = Inr (JDict result) \<and>
          fill_defaults fname result = Inr filled
          \<longrightarrow> out_status (upload env fs req) = 200 \<and>
              out_body (upload env fs req) = JDict filled \<and>
              (\<exists>added. filled = result @ added \<and>
                 fst ` set added \<subseteq> {''success'', ''image_name'', ''detections_count''}) \<and>
              (\<forall>k. dict_has result k \<longrightarrow> dict_get filled k = dict_get result k) \<and>
              dict_has filled ''success'' \<and> dict_has filled ''image_name'' \<and>
              dict_has filled ''detections_count''"
  proof
    assume h: "post env call = Inr response \<and> status_code response = 200 \<and>
          response_json response = Inr (JDict result) \<and>
          fill_defaults fname result = Inr filled"
    then have "out_status (upload env fs req) = 200 \<and> out_body (upload env fs req) = JDict filled"
      unfolding assms(2,3) by (simp add: u)
    with fill_defaults_Inr [of fname result filled] h
    show "out_status (upload env fs req) = 200 \<and>
              out_body (upload env fs req) = JDict filled \<and>
              (\<exists>added. filled = result @ added \<and>
                 fst ` set added \<subseteq> {''success'', ''image_name'', ''detections_count''}) \<and>
              (\<forall>k. dict_has result k \<longrightarrow> dict_get filled k = dict_get result k) \<and>
              dict_has filled ''success'' \<and> dict_has filled ''image_name'' \<and>
              dict_has filled ''detections_count''"
      by simp
  qed
  have c3: "post env call = Inr response \<and> status_code response \<noteq> 200
          \<longrightarrow> out_status (upload env fs req) = status_code response \<and>
              out_body (upload env fs req) =
                error_body (''AI backend error: '' @ response_text response)"
    unfolding assms(2,3) by (simp add: u)
  have c4: "post env call = Inl e \<and> isinstance_Timeout e
          \<longrightarrow> out_status (upload env fs req) = 504 \<and>
              out_body (upload env fs req) = error_body ''AI backend request timeout''"
    unfolding assms(2,3) by (simp add: u)
  have c5: "post env call = Inl e \<and> \<not> isinstance_Timeout e \<and> isinstance_ConnectionError e
          \<longrightarrow> out_status (upload env fs req) = 503 \<and>
              jget (out_body (upload env fs req)) ''success'' = Some (JBool False)"
    unfolding assms(2,3) by (simp add: u error_body_def jget_def dict_get_def)
  have c6: "post env call = Inl e \<and> \<not> isinstance_Timeout e \<and> \<not> isinstance_ConnectionError e
          \<longrightarrow> out_status (upload env fs req) = 500 \<and>
              out_body (upload env fs req) =
                error_body (''Error communicating with AI backend: '' @ exn_str e)"
    unfolding assms(2,3) by (simp add: u)
  have c7: "post env call = Inr response \<and> status_code response = 200 \<and>
          (response_json response = Inl m \<or>
           (response_json response = Inr v \<and> (\<forall>d. v \<noteq> JDict d)) \<or>
           (response_json response = Inr (JDict result) \<and> fill_defaults fname result = Inl e))
          \<longrightarrow> out_status (upload env fs req) = 500 \<and>
              jget (out_body (upload env fs req)) ''success'' = Some (JBool False)"
    using fill_defaults_Inl [of fname result e]
    unfolding assms(2,3)
    by (auto simp: u error_body_def jget_def dict_get_def isinstance_Timeout_def
        isinstance_ConnectionError_def split: json.splits)
  show ?thesis
    apply (intro conjI)
          apply (rule c1)
         apply (rule c2)
        apply (rule c3)
       apply (rule c4)
      apply (rule c5)
     apply (rule c6)
    apply (rule c7)
    done
qed


theorem C5_response_mapping_witness:
  "reaches_forwarding (example_gateway (upstream_answers 200)) example_ui_fs example_request
     example_upload
   \<and> out_status (upload (example_gateway (upstream_answers 200)) example_ui_fs example_request)
       = 200
   \<and> out_body (upload (example_gateway (upstream_answers 200)) example_ui_fs example_request)
       = JDict (example_upstream_body @ [(''detections_count'', JInt 0)])
   \<and> out_status (upload (example_gateway (upstream_answers 404)) example_ui_fs example_request)
       = 404
   \<and> out_status (upload (example_gateway (upstream_raises (Timeout ''timed out'')))
         example_ui_fs example_request) = 504
   \<and> out_status (upload (example_gateway (upstream_raises (ConnectionError ''refused'')))
         example_ui_fs example_request) = 503
   \<and> out_status (upload (example_gateway (upstream_raises (RaisedError ''broken pipe'')))
         example_ui_fs example_request) = 500"
proof -
  have r: "reaches_forwarding (example_gateway u) example_ui_fs example_request example_upload"
    for u
    by (simp add: reaches_forwarding_def gateway_examples gateway_eval)
  have p: "post (example_gateway u) c = u c" for u c
    by (simp add: example_gateway_def)
  have f: "fill_defaults (secure_filename (example_gateway u) (filename example_upload))
             example_upstream_body =
           Inr (example_upstream_body @ [(''detections_count'', JInt 0)])" for u
    by (simp add: gateway_examples gateway_eval)
  have a200: "out_status (upload (example_gateway (upstream_answers 200)) example_ui_fs
                 example_request) = 200
     \<and> out_body (upload (example_gateway (upstream_answers 200)) example_ui_fs example_request)
       = JDict (example_upstream_body @ [(''detections_count'', JInt 0)])"
    using C5_response_mapping [OF r refl refl, of "upstream_answers 200"
        "\<lparr>status_code = 200, response_text = ''created'',
          response_json = Inr (JDict example_upstream_body)\<rparr>"
        example_upstream_body "example_upstream_body @ [(''detections_count'', JInt 0)]"]
      f [of "upstream_answers 200"]
    by (simp add: p upstream_answers_def)
  have a404: "out_status (upload (example_gateway (upstream_answers 404)) example_ui_fs
                 example_request) = 404"
    using C5_response_mapping [OF r refl refl, of "upstream_answers 404"
        "\<lparr>status_code = 404, response_text = ''created'',
          response_json = Inr (JDict example_upstream_body)\<rparr>"]
    by (simp add: p upstream_answers_def)
  have a504: "out_status (upload (example_gateway (upstream_raises (Timeout ''timed out'')))
         example_ui_fs example_request) = 504"
    using C5_response_mapping [OF r refl refl, of "upstream_raises (Timeout ''timed out'')"
        _ _ _ "Timeout ''timed out''"]
    by (simp add: p upstream_raises_def isinstance_Timeout_def)
  have a503: "out_status (upload (example_gateway (upstream_raises (ConnectionError ''refused'')))
         example_ui_fs example_request) = 503"
    using C5_response_mapping [OF r refl refl, of "upstream_raises (ConnectionError ''refused'')"
        _ _ _ "ConnectionError ''refused''"]
    by (simp add: p upstream_raises_def isinstance_Timeout_def isinstance_ConnectionError_def)
  have a500: "out_status (upload (example_gateway (upstream_raises (RaisedError ''broken pipe'')))
         example_ui_fs example_request) = 500"
    using C5_response_mapping [OF r refl refl, of "upstream_raises (RaisedError ''broken pipe'')"
        _ _ _ "RaisedError ''broken pipe''"]
    by (simp add: p upstream_raises_def isinstance_Timeout_def isinstance_ConnectionError_def)
  from r [of "upstream_answers 200"] a200 a404 a504 a503 a500 show ?thesis
    by simp
qed

end
